theory Spec2Isabelle
  imports Complex_Main "HOL-Library.Word"
begin

section \<open>Data model of \<open>packet_spec.py\<close>\<close>

text \<open>
  The enumerations of the packet specification. Each Python \<open>Enum\<close> is a datatype whose
  constructors are the members, in the order of their codes (0, 1, 2, ...).
\<close>

type_synonym byte = "8 word"

datatype PacketType = CONTROL | TELEMETRY

datatype TelemetryPacketSubType =
  TEMPERATURE | PRESSURE | MASS | ARMING_STATE | ACT_STATE | WARNING
  | ACT_REQ | ACT_ACK | ARM_REQ | ARM_ACK

datatype ActuationRequestStatus = ACT_OK | ACT_DENIED | ACT_DNE | ACT_INV

datatype ArmingState =
  ARMED_PAD | ARMED_VALVES | ARMED_IGNITION | ARMED_DISCONNECTED | ARMED_LAUNCH

datatype Warning = HIGH_PRESSURE | HIGH_TEMP

datatype ActuatorState = OFF | ON

datatype AcknowledgementStatus = ARM_OK | ARM_DENIED | ARM_INV

text \<open>
  The exceptions the decoders can raise. \<open>ValueError\<close> is what an \<open>Enum\<close> constructor
  raises on a code outside its members (the specification's \<open>InvalidEnumValue\<close>);
  \<open>StructError\<close> is \<open>struct.error\<close>, raised when a buffer does not have the size of the
  format (the specification's \<open>MalformedPayload\<close>); \<open>AttributeError\<close>, \<open>TypeError\<close> and
  \<open>IndexError\<close> are the interpreter's own. A function that raises returns \<open>Inl\<close>.
\<close>

datatype error = ValueError | StructError | AttributeError | TypeError | IndexError

text \<open>
  Python values are dynamically typed: a dataclass field annotated \<open>int\<close> holds whatever
  the caller stores there. \<open>pyval\<close> has the shapes that the decoders store in a field
  or iterate over: an integer, a float (modelled as the real number it approximates),
  a string and a tuple.
\<close>

datatype pyval = PInt int | PFloat real | PStr string | PTuple "pyval list"

text \<open>
  A field annotated with an enumeration holds either a member of it (the result of the
  \<open>Enum\<close> constructor) or a raw value that was stored without going through the
  constructor.
\<close>

datatype 'e enum_field = Member 'e | Raw pyval

record PacketHeader =
  type :: PacketType
  sub_type :: TelemetryPacketSubType

text \<open>
  The message dataclasses, with their fields in declaration order: the control
  variants \<open>(id, state)\<close>, \<open>(id, status)\<close>, \<open>(level)\<close>, \<open>(status)\<close>; the sensor variants
  \<open>(time_since_power, value, id)\<close>; \<open>ArmingStatePacket (time_since_power, state)\<close>;
  \<open>ActuatorStatePacket (time_since_power, id, state)\<close>;
  \<open>WarningPacket (time_since_power, type)\<close>.
\<close>

datatype PacketMessage =
  ActuationRequest int "ActuatorState enum_field"
  | ActuationAcknowledgement int "ActuationRequestStatus enum_field"
  | ArmingRequest "ArmingState enum_field"
  | ArmingAcknowledgement "AcknowledgementStatus enum_field"
  | TemperaturePacket int pyval int
  | PressurePacket int pyval int
  | MassPacket int pyval int
  | ArmingStatePacket int ArmingState
  | ActuatorStatePacket int int ActuatorState
  | WarningPacket int Warning

record SerialDataPacket =
  m1 :: pyval
  m2 :: pyval
  p1 :: pyval
  p2 :: pyval
  p3 :: pyval
  p4 :: pyval
  t1 :: pyval
  t2 :: pyval
  t3 :: pyval
  status :: pyval

text \<open>
  The module \<open>data_conversions\<close> (imported with \<open>from data_conversions import *\<close>) is not
  part of the sources at hand. Its five calibration functions that
  \<open>parse_serial_packet\<close> calls are taken as a parameter: each maps a raw 16-bit count
  to some Python value.
\<close>

record data_conversions =
  loadCell2Conversion :: "nat \<Rightarrow> pyval"
  pressureConversion :: "nat \<Rightarrow> pyval"
  thermistorConversion :: "nat \<Rightarrow> pyval"
  thermistor2Conversion :: "nat \<Rightarrow> pyval"
  thermocouple3Conversion :: "nat \<Rightarrow> pyval"

section \<open>Enum constructors\<close>

definition PacketType_of :: "nat \<Rightarrow> error + PacketType" where
  "PacketType_of c =
     (if c = 0 then Inr CONTROL else if c = 1 then Inr TELEMETRY else Inl ValueError)"

definition TelemetryPacketSubType_of :: "nat \<Rightarrow> error + TelemetryPacketSubType" where
  "TelemetryPacketSubType_of c =
     (if c = 0 then Inr TEMPERATURE
      else if c = 1 then Inr PRESSURE
      else if c = 2 then Inr MASS
      else if c = 3 then Inr ARMING_STATE
      else if c = 4 then Inr ACT_STATE
      else if c = 5 then Inr WARNING
      else if c = 6 then Inr ACT_REQ
      else if c = 7 then Inr ACT_ACK
      else if c = 8 then Inr ARM_REQ
      else if c = 9 then Inr ARM_ACK
      else Inl ValueError)"

definition ArmingState_of :: "nat \<Rightarrow> error + ArmingState" where
  "ArmingState_of c =
     (if c = 0 then Inr ARMED_PAD
      else if c = 1 then Inr ARMED_VALVES
      else if c = 2 then Inr ARMED_IGNITION
      else if c = 3 then Inr ARMED_DISCONNECTED
      else if c = 4 then Inr ARMED_LAUNCH
      else Inl ValueError)"

definition Warning_of :: "nat \<Rightarrow> error + Warning" where
  "Warning_of c =
     (if c = 0 then Inr HIGH_PRESSURE else if c = 1 then Inr HIGH_TEMP else Inl ValueError)"

definition ActuatorState_of :: "nat \<Rightarrow> error + ActuatorState" where
  "ActuatorState_of c =
     (if c = 0 then Inr OFF else if c = 1 then Inr ON else Inl ValueError)"

section \<open>\<open>struct.unpack\<close>\<close>

text \<open>
  All formats of the module start with \<open><\<close>: little-endian, standard sizes, no padding.
  \<open>B\<close> is one byte, \<open>H\<close> two, \<open>I\<close> four, all unsigned. \<open>le_uint\<close> reads a little-endian
  unsigned number; \<open>field bs off n\<close> is the \<open>n\<close>-byte number at offset \<open>off\<close>.
\<close>

fun le_uint :: "byte list \<Rightarrow> nat" where
  "le_uint [] = 0"
| "le_uint (b # bs) = unat b + 256 * le_uint bs"

definition field :: "byte list \<Rightarrow> nat \<Rightarrow> nat \<Rightarrow> nat" where
  "field bs off n = le_uint (take n (drop off bs))"

text \<open>
  \<open>struct.unpack(fmt, buffer)\<close> raises \<open>struct.error\<close> unless the buffer has exactly the
  size of the format.
\<close>

definition unpack_B :: "byte list \<Rightarrow> error + nat" where
  "unpack_B bs = (if length bs \<noteq> 1 then Inl StructError else Inr (field bs 0 1))"

definition unpack_BB :: "byte list \<Rightarrow> error + nat \<times> nat" where
  "unpack_BB bs =
     (if length bs \<noteq> 2 then Inl StructError else Inr (field bs 0 1, field bs 1 1))"

definition unpack_IB :: "byte list \<Rightarrow> error + nat \<times> nat" where
  "unpack_IB bs =
     (if length bs \<noteq> 5 then Inl StructError else Inr (field bs 0 4, field bs 4 1))"

definition unpack_IBB :: "byte list \<Rightarrow> error + nat \<times> nat \<times> nat" where
  "unpack_IBB bs =
     (if length bs \<noteq> 6 then Inl StructError
      else Inr (field bs 0 4, field bs 4 1, field bs 5 1))"

definition unpack_IIB :: "byte list \<Rightarrow> error + nat \<times> nat \<times> nat" where
  "unpack_IIB bs =
     (if length bs \<noteq> 9 then Inl StructError
      else Inr (field bs 0 4, field bs 4 4, field bs 8 1))"

text \<open>
  \<open>struct.unpack_from("<HHHHHHHHHI", data, offset)\<close> raises \<open>struct.error\<close> when fewer
  than 22 bytes follow the offset, and ignores what follows the 22 bytes. It returns
  ten raw unsigned values (\<open>raw\<close>).
\<close>

type_synonym raw = nat

definition unpack_from_HHHHHHHHHI ::
  "byte list \<Rightarrow> nat \<Rightarrow> error + raw \<times> raw \<times> raw \<times> raw \<times> raw \<times> raw \<times> raw \<times> raw \<times> raw \<times> raw"
  where
  "unpack_from_HHHHHHHHHI bs off =
     (if length bs < off + 22 then Inl StructError
      else Inr (field bs off 2, field bs (off + 2) 2, field bs (off + 4) 2,
                field bs (off + 6) 2, field bs (off + 8) 2, field bs (off + 10) 2,
                field bs (off + 12) 2, field bs (off + 14) 2, field bs (off + 16) 2,
                field bs (off + 18) 4))"

section \<open>Header and message decoders\<close>

definition parse_packet_header :: "byte list \<Rightarrow> error + PacketHeader" where
  "parse_packet_header header_bytes =
     (case unpack_BB header_bytes of
        Inl e \<Rightarrow> Inl e
      | Inr (packet_type, packet_sub_type) \<Rightarrow>
          (case PacketType_of packet_type of
             Inl e \<Rightarrow> Inl e
           | Inr pt \<Rightarrow>
               (case TelemetryPacketSubType_of packet_sub_type of
                  Inl e \<Rightarrow> Inl e
                | Inr st \<Rightarrow> Inr \<lparr>type = pt, sub_type = st\<rparr>)))"

text \<open>
  \<open>packet_message_bytes_length\<close> has cases for \<open>TELEMETRY\<close> only; a header that matches
  no case leaves the \<open>match\<close> statements and the function returns \<open>None\<close>. Nothing in
  it raises.
\<close>

definition packet_message_bytes_length :: "PacketHeader \<Rightarrow> error + nat option" where
  "packet_message_bytes_length header =
     (case type header of
        TELEMETRY \<Rightarrow>
          (case sub_type header of
             TEMPERATURE \<Rightarrow> Inr (Some 9)
           | PRESSURE \<Rightarrow> Inr (Some 9)
           | MASS \<Rightarrow> Inr (Some 9)
           | ACT_STATE \<Rightarrow> Inr (Some 6)
           | ARMING_STATE \<Rightarrow> Inr (Some 5)
           | WARNING \<Rightarrow> Inr (Some 5)
           | _ \<Rightarrow> Inr None)
      | CONTROL \<Rightarrow> Inr None)"

text \<open>
  \<open>parse_packet_message\<close>. In the \<open>ACT_REQ\<close> case the source reads
  \<^verbatim>\<open>struct.unpack("<BB". message_bytes)\<close>: the argument is the attribute
  \<open>message_bytes\<close> of a string literal, whose evaluation raises \<open>AttributeError\<close> before
  \<open>unpack\<close> is called. In the \<open>ACT_ACK\<close> case the unpacked status is stored as it is; in
  the \<open>ARM_REQ\<close> and \<open>ARM_ACK\<close> cases the 1-tuple that \<open>unpack\<close> returns is stored as it
  is. A header that matches no case gives \<open>None\<close>.
\<close>

definition parse_packet_message :: "PacketHeader \<Rightarrow> byte list \<Rightarrow> error + PacketMessage option"
  where
  "parse_packet_message header message_bytes =
     (case type header of
        CONTROL \<Rightarrow>
          (case sub_type header of
             ACT_REQ \<Rightarrow> Inl AttributeError
           | ACT_ACK \<Rightarrow>
               (case unpack_BB message_bytes of
                  Inl e \<Rightarrow> Inl e
                | Inr (ident, stat) \<Rightarrow>
                    Inr (Some (ActuationAcknowledgement (int ident) (Raw (PInt (int stat))))))
           | ARM_REQ \<Rightarrow>
               (case unpack_B message_bytes of
                  Inl e \<Rightarrow> Inl e
                | Inr level \<Rightarrow> Inr (Some (ArmingRequest (Raw (PTuple [PInt (int level)])))))
           | ARM_ACK \<Rightarrow>
               (case unpack_B message_bytes of
                  Inl e \<Rightarrow> Inl e
                | Inr stat \<Rightarrow>
                    Inr (Some (ArmingAcknowledgement (Raw (PTuple [PInt (int stat)])))))
           | _ \<Rightarrow> Inr None)
      | TELEMETRY \<Rightarrow>
          (case sub_type header of
             TEMPERATURE \<Rightarrow>
               (case unpack_IIB message_bytes of
                  Inl e \<Rightarrow> Inl e
                | Inr (time, temperature, ident) \<Rightarrow>
                    Inr (Some (TemperaturePacket (int time) (PInt (int temperature)) (int ident))))
           | PRESSURE \<Rightarrow>
               (case unpack_IIB message_bytes of
                  Inl e \<Rightarrow> Inl e
                | Inr (time, pressure, ident) \<Rightarrow>
                    Inr (Some (PressurePacket (int time) (PInt (int pressure)) (int ident))))
           | MASS \<Rightarrow>
               (case unpack_IIB message_bytes of
                  Inl e \<Rightarrow> Inl e
                | Inr (time, mass, ident) \<Rightarrow>
                    Inr (Some (MassPacket (int time) (PInt (int mass)) (int ident))))
           | ARMING_STATE \<Rightarrow>
               (case unpack_IB message_bytes of
                  Inl e \<Rightarrow> Inl e
                | Inr (time, state) \<Rightarrow>
                    (case ArmingState_of state of
                       Inl e \<Rightarrow> Inl e
                     | Inr s \<Rightarrow> Inr (Some (ArmingStatePacket (int time) s))))
           | ACT_STATE \<Rightarrow>
               (case unpack_IBB message_bytes of
                  Inl e \<Rightarrow> Inl e
                | Inr (time, ident, state) \<Rightarrow>
                    (case ActuatorState_of state of
                       Inl e \<Rightarrow> Inl e
                     | Inr s \<Rightarrow> Inr (Some (ActuatorStatePacket (int time) (int ident) s))))
           | WARNING \<Rightarrow>
               (case unpack_IB message_bytes of
                  Inl e \<Rightarrow> Inl e
                | Inr (time, wtype) \<Rightarrow>
                    (case Warning_of wtype of
                       Inl e \<Rightarrow> Inl e
                     | Inr w \<Rightarrow> Inr (Some (WarningPacket (int time) w))))
           | _ \<Rightarrow> Inr None))"

section \<open>Serial frame decoder\<close>

text \<open>
  \<open>'{:012b}'.format(n)\<close> for a non-negative \<open>n\<close>: the binary digits of \<open>n\<close>, most
  significant first, padded on the left with \<open>0\<close> to a width of at least 12. The
  width is a minimum: a number of more than 12 bits keeps all its digits.
\<close>

fun bin_digits :: "nat \<Rightarrow> string" where
  "bin_digits n =
     (if n < 2 then [if n = 0 then CHR ''0'' else CHR ''1'']
      else bin_digits (n div 2) @ [if n mod 2 = 0 then CHR ''0'' else CHR ''1''])"

declare bin_digits.simps [simp del]

definition format_012b :: "nat \<Rightarrow> string" where
  "format_012b n = replicate (12 - length (bin_digits n)) CHR ''0'' @ bin_digits n"

text \<open>\<open>asdict(parsed_packet).items()\<close>: the fields in declaration order.\<close>

definition asdict :: "SerialDataPacket \<Rightarrow> (string \<times> pyval) list" where
  "asdict pkt =
     [(''m1'', m1 pkt), (''m2'', m2 pkt),
      (''p1'', p1 pkt), (''p2'', p2 pkt), (''p3'', p3 pkt), (''p4'', p4 pkt),
      (''t1'', t1 pkt), (''t2'', t2 pkt), (''t3'', t3 pkt),
      (''status'', status pkt)]"

text \<open>
  \<open>int(field[-1])\<close>: the last character of the field name as a number. An empty string
  has no last character; a character that is not a digit is not a number.
\<close>

definition int_last :: "string \<Rightarrow> error + int" where
  "int_last fld =
     (if fld = [] then Inl IndexError
      else if last fld \<in> set ''0123456789'' then Inr (int (of_char (last fld)) - 48)
      else Inl ValueError)"

text \<open>
  Iterating over a value: a string gives its characters as one-character strings, a
  tuple its elements, a number raises \<open>TypeError\<close>.
\<close>

fun py_iter :: "pyval \<Rightarrow> error + pyval list" where
  "py_iter (PStr s) = Inr (map (\<lambda>c. PStr [c]) s)"
| "py_iter (PTuple vs) = Inr vs"
| "py_iter (PInt i) = Inl TypeError"
| "py_iter (PFloat x) = Inl TypeError"

text \<open>The body of \<open>for index, bit in enumerate(val)\<close>: one \<open>ACT_STATE\<close> event per bit.\<close>

definition valve_state :: "nat set \<Rightarrow> nat \<Rightarrow> pyval \<Rightarrow> ActuatorState" where
  "valve_state default_open_valves index b =
     (if index \<in> default_open_valves then (if b = PStr ''0'' then ON else OFF)
      else (if b = PStr ''0'' then OFF else ON))"

definition valve_events ::
  "int \<Rightarrow> nat set \<Rightarrow> pyval list \<Rightarrow> (PacketHeader \<times> PacketMessage) list" where
  "valve_events timestamp default_open_valves bits =
     map (\<lambda>(index, b).
            (\<lparr>type = TELEMETRY, sub_type = ACT_STATE\<rparr>,
             ActuatorStatePacket timestamp (int index) (valve_state default_open_valves index b)))
         (enumerate 0 bits)"

text \<open>The body of \<open>for field, val in asdict(parsed_packet).items()\<close>.\<close>

definition field_events ::
  "int \<Rightarrow> nat set \<Rightarrow> string \<times> pyval \<Rightarrow> error + (PacketHeader \<times> PacketMessage) list" where
  "field_events timestamp default_open_valves fv =
     (case fv of (fld, val) \<Rightarrow>
        if take 1 fld = ''m'' then
          (case int_last fld of
             Inl e \<Rightarrow> Inl e
           | Inr n \<Rightarrow> Inr [(\<lparr>type = TELEMETRY, sub_type = MASS\<rparr>, MassPacket timestamp val n)])
        else if take 1 fld = ''p'' then
          (case int_last fld of
             Inl e \<Rightarrow> Inl e
           | Inr n \<Rightarrow>
               Inr [(\<lparr>type = TELEMETRY, sub_type = PRESSURE\<rparr>, PressurePacket timestamp val n)])
        else if take 1 fld = ''t'' then
          (case int_last fld of
             Inl e \<Rightarrow> Inl e
           | Inr n \<Rightarrow>
               Inr [(\<lparr>type = TELEMETRY, sub_type = TEMPERATURE\<rparr>,
                     TemperaturePacket timestamp val n)])
        else
          (case py_iter val of
             Inl e \<Rightarrow> Inl e
           | Inr bits \<Rightarrow> Inr (valve_events timestamp default_open_valves bits)))"

fun packet_events ::
  "int \<Rightarrow> nat set \<Rightarrow> (string \<times> pyval) list \<Rightarrow> (PacketHeader \<times> PacketMessage) list
     \<Rightarrow> error + (PacketHeader \<times> PacketMessage) list" where
  "packet_events timestamp default_open_valves [] packet_list = Inr packet_list"
| "packet_events timestamp default_open_valves (fv # rest) packet_list =
     (case field_events timestamp default_open_valves fv of
        Inl e \<Rightarrow> Inl e
      | Inr evs \<Rightarrow> packet_events timestamp default_open_valves rest (packet_list @ evs))"

text \<open>
  \<open>parse_serial_packet\<close>. The first 16-bit value unpacked is bound to \<open>m2\<close> and the
  second to \<open>m1\<close>. \<open>m1/1000\<close> is Python's true division of an integer, a float; the
  model has the exact quotient. \<open>status//pow(2,16)\<close> is the floor division by 65536.
\<close>

definition parse_serial_packet ::
  "data_conversions \<Rightarrow> byte list \<Rightarrow> int \<Rightarrow> nat set
     \<Rightarrow> error + SerialDataPacket \<times> (PacketHeader \<times> PacketMessage) list" where
  "parse_serial_packet dc data timestamp default_open_valves =
     (case unpack_from_HHHHHHHHHI data 4 of
        Inl e \<Rightarrow> Inl e
      | Inr (v_m2, v_m1, v_p1, v_p2, v_p3, v_p4, v_t1, v_t2, v_t3, v_status) \<Rightarrow>
          (let parsed_packet =
                 \<lparr>m1 = PFloat (real v_m1 / 1000),
                  m2 = loadCell2Conversion dc v_m2,
                  p1 = pressureConversion dc v_p1,
                  p2 = pressureConversion dc v_p2,
                  p3 = pressureConversion dc v_p3,
                  p4 = pressureConversion dc v_p4,
                  t1 = thermistorConversion dc v_t1,
                  t2 = thermistor2Conversion dc v_t2,
                  t3 = thermocouple3Conversion dc v_t3,
                  status = PStr (rev (format_012b (v_status div 2 ^ 16)))\<rparr>
           in case packet_events timestamp default_open_valves (asdict parsed_packet) [] of
                Inl e \<Rightarrow> Inl e
              | Inr packet_list \<Rightarrow> Inr (parsed_packet, packet_list)))"

section \<open>Reading bytes\<close>

text \<open>
  What \<open>field\<close> reads, written out byte by byte: the byte at the offset is the least
  significant one.
\<close>

lemma take_Suc_drop:
  "off < length bs \<Longrightarrow> take (Suc n) (drop off bs) = bs ! off # take n (drop (Suc off) bs)"
  by (metis Cons_nth_drop_Suc take_Suc_Cons)

lemma field_1: "off < length bs \<Longrightarrow> field bs off (Suc 0) = unat (bs ! off)"
  by (simp add: field_def take_Suc_drop)

lemma field_2: "off + 2 \<le> length bs \<Longrightarrow>
  field bs off 2 = unat (bs ! off) + 256 * unat (bs ! (off + 1))"
  by (simp add: field_def take_Suc_drop numeral_2_eq_2)

lemma take_4_drop: "off + 4 \<le> length bs \<Longrightarrow>
  take 4 (drop off bs) = [bs ! off, bs ! (off + 1), bs ! (off + 2), bs ! (off + 3)]"
proof -
  assume len: "off + 4 \<le> length bs"
  have four: "(4::nat) = Suc (Suc (Suc (Suc 0)))" by simp
  have "take (Suc (Suc (Suc (Suc 0)))) (drop off bs)
      = [bs ! off, bs ! Suc off, bs ! Suc (Suc off), bs ! Suc (Suc (Suc off))]"
    using len by (simp add: take_Suc_drop)
  also have "Suc off = off + 1" by simp
  also have "Suc (off + 1) = off + 2" by simp
  also have "Suc (off + 2) = off + 3" by simp
  finally show ?thesis by (simp only: four)
qed

lemma field_4: "off + 4 \<le> length bs \<Longrightarrow>
  field bs off 4 = unat (bs ! off) + 256 * unat (bs ! (off + 1))
     + 65536 * unat (bs ! (off + 2)) + 16777216 * unat (bs ! (off + 3))"
  by (simp add: field_def take_4_drop)

lemma subtype_cases: "c < 10 \<Longrightarrow> c \<in> {0, 1, 2, 3, 4, 5, 6, 7, 8, 9 :: nat}"
  by (simp add: insert_iff) arith

section \<open>Header decoder\<close>

text \<open>
  Claim C2. A two-byte input \<open>[t, s]\<close> decodes to the header whose type is the member
  with code \<open>t\<close> and whose subtype is the member with code \<open>s\<close> when \<open>t\<close> is 0 or 1 and
  \<open>s\<close> is one of 0 to 9, and raises \<open>ValueError\<close> (the specification's
  \<open>InvalidEnumValue\<close>) for every other pair of codes. The bytes \<open>01 00\<close> give
  \<open>PacketHeader(TELEMETRY, TEMPERATURE)\<close>; the type code 5 raises.
\<close>

theorem parse_packet_header_domain:
  "parse_packet_header [t, s] =
     (if unat t < 2 \<and> unat s < 10
      then Inr \<lparr>type = [CONTROL, TELEMETRY] ! unat t,
                sub_type = [TEMPERATURE, PRESSURE, MASS, ARMING_STATE, ACT_STATE, WARNING,
                            ACT_REQ, ACT_ACK, ARM_REQ, ARM_ACK] ! unat s\<rparr>
      else Inl ValueError)
   \<and> parse_packet_header [1, 0] = Inr \<lparr>type = TELEMETRY, sub_type = TEMPERATURE\<rparr>
   \<and> parse_packet_header [5, 0] = Inl ValueError"
proof -
  have f: "field [t, s] 0 (Suc 0) = unat t" "field [t, s] (Suc 0) (Suc 0) = unat s" for t s :: byte
    by (simp_all add: field_def)
  have g: "parse_packet_header [t, s] =
     (case PacketType_of (unat t) of Inl e \<Rightarrow> Inl e
      | Inr pt \<Rightarrow> (case TelemetryPacketSubType_of (unat s) of Inl e \<Rightarrow> Inl e
           | Inr st \<Rightarrow> Inr \<lparr>type = pt, sub_type = st\<rparr>))" for t s :: byte
    by (simp add: parse_packet_header_def unpack_BB_def f)
  have 1: "parse_packet_header [t, s] =
     (if unat t < 2 \<and> unat s < 10
      then Inr \<lparr>type = [CONTROL, TELEMETRY] ! unat t,
                sub_type = [TEMPERATURE, PRESSURE, MASS, ARMING_STATE, ACT_STATE, WARNING,
                            ACT_REQ, ACT_ACK, ARM_REQ, ARM_ACK] ! unat s\<rparr>
      else Inl ValueError)"
  proof (cases "unat t < 2")
    case False
    then show ?thesis by (simp add: g PacketType_of_def)
  next
    case True
    then have t: "unat t = 0 \<or> unat t = 1" by arith
    show ?thesis
    proof (cases "unat s < 10")
      case False
      with t show ?thesis
        by (auto simp add: g PacketType_of_def TelemetryPacketSubType_of_def)
    next
      case s: True
      from subtype_cases [OF s] t True s show ?thesis
        by (auto simp add: g PacketType_of_def TelemetryPacketSubType_of_def)
    qed
  qed
  have 2: "parse_packet_header [1, 0] = Inr \<lparr>type = TELEMETRY, sub_type = TEMPERATURE\<rparr>"
    by (simp add: g PacketType_of_def TelemetryPacketSubType_of_def)
  have 3: "parse_packet_header [5, 0] = Inl ValueError"
    by (simp add: g PacketType_of_def TelemetryPacketSubType_of_def)
  show ?thesis by (rule conjI [OF 1 conjI [OF 2 3]])
qed

section \<open>Payload length\<close>

text \<open>
  Claim C3, as the code has it. \<open>packet_message_bytes_length\<close> returns 9 for a
  \<open>TELEMETRY\<close> header with subtype \<open>TEMPERATURE\<close>, \<open>PRESSURE\<close> or \<open>MASS\<close>, 6 for
  \<open>TELEMETRY\<close> with \<open>ACT_STATE\<close>, 5 for \<open>TELEMETRY\<close> with \<open>ARMING_STATE\<close> or \<open>WARNING\<close>,
  and for every other header (every \<open>CONTROL\<close> header, and \<open>TELEMETRY\<close> with one of the
  four request and acknowledgement subtypes) it returns \<open>None\<close> and raises nothing.
\<close>

theorem packet_message_bytes_length_table:
  "packet_message_bytes_length h =
     Inr (if type h = TELEMETRY \<and> sub_type h \<in> {TEMPERATURE, PRESSURE, MASS} then Some 9
          else if type h = TELEMETRY \<and> sub_type h = ACT_STATE then Some 6
          else if type h = TELEMETRY \<and> sub_type h \<in> {ARMING_STATE, WARNING} then Some 5
          else None)"
  by (cases "type h"; cases "sub_type h") (simp_all add: packet_message_bytes_length_def)

text \<open>
  Claim C3 as stated does not hold: for the header \<open>(CONTROL, ACT_REQ)\<close> the function
  returns \<open>None\<close>, not 2; for \<open>(CONTROL, ARM_ACK)\<close> it does not return 1; and for
  \<open>(CONTROL, TEMPERATURE)\<close>, a header outside the table, it returns \<open>None\<close> where the
  claim has it fail.
\<close>

theorem packet_message_bytes_length_control_counterexample:
  "packet_message_bytes_length \<lparr>type = CONTROL, sub_type = ACT_REQ\<rparr> = Inr None
   \<and> packet_message_bytes_length \<lparr>type = CONTROL, sub_type = ACT_REQ\<rparr> \<noteq> Inr (Some 2)
   \<and> packet_message_bytes_length \<lparr>type = CONTROL, sub_type = ARM_ACK\<rparr> \<noteq> Inr (Some 1)
   \<and> packet_message_bytes_length \<lparr>type = CONTROL, sub_type = TEMPERATURE\<rparr> = Inr None"
  by (simp add: packet_message_bytes_length_def)

section \<open>Message decoder\<close>

text \<open>
  Claim C4, at the input where the code departs from it. For the header
  \<open>(CONTROL, ACT_REQ)\<close> and the two-byte payload \<open>03 01\<close> the decoder raises
  \<open>AttributeError\<close>; the claim has it return \<open>ActuationRequest(id=3, state=...)\<close>.
\<close>

theorem parse_packet_message_act_req_raises:
  "parse_packet_message \<lparr>type = CONTROL, sub_type = ACT_REQ\<rparr> [3, 1] = Inl AttributeError"
  by (simp add: parse_packet_message_def)

text \<open>
  Claim C5, at the input where the code departs from it. For the header
  \<open>(CONTROL, ACT_ACK)\<close> and the payload \<open>00 07\<close>, whose status byte 7 is outside the
  codes 0 to 3 of \<open>ActuationRequestStatus\<close>, the decoder returns an
  \<open>ActuationAcknowledgement\<close> that carries the raw integer 7; the claim has it fail
  with \<open>InvalidEnumValue\<close>. Likewise the payload \<open>09\<close> under \<open>ARM_REQ\<close> and under
  \<open>ARM_ACK\<close>, outside the codes of \<open>ArmingState\<close> and of \<open>AcknowledgementStatus\<close>, is
  returned in a message that carries the 1-tuple \<open>(9,)\<close>.
\<close>

theorem parse_packet_message_act_ack_unvalidated:
  "parse_packet_message \<lparr>type = CONTROL, sub_type = ACT_ACK\<rparr> [0, 7]
     = Inr (Some (ActuationAcknowledgement 0 (Raw (PInt 7))))
   \<and> parse_packet_message \<lparr>type = CONTROL, sub_type = ARM_REQ\<rparr> [9]
     = Inr (Some (ArmingRequest (Raw (PTuple [PInt 9]))))
   \<and> parse_packet_message \<lparr>type = CONTROL, sub_type = ARM_ACK\<rparr> [9]
     = Inr (Some (ArmingAcknowledgement (Raw (PTuple [PInt 9]))))"
  by (simp add: parse_packet_message_def unpack_BB_def unpack_B_def field_1)

text \<open>
  Claim C6. For a \<open>TELEMETRY\<close> header with subtype \<open>TEMPERATURE\<close>, \<open>PRESSURE\<close> or
  \<open>MASS\<close> and any payload of nine bytes, the decoder returns the sensor packet of that
  subtype whose \<open>time_since_power\<close> is the little-endian number of the first four
  bytes, whose value is the little-endian number of the next four, and whose id is the
  ninth byte. The \<open>TEMPERATURE\<close> payload \<open>E8 03 00 00 FA 00 00 00 02\<close> (time 1000, value
  250, id 2) gives \<open>TemperaturePacket(time_since_power=1000, temperature=250, id=2)\<close>.
\<close>

theorem parse_packet_message_sensor:
  "parse_packet_message \<lparr>type = TELEMETRY, sub_type = TEMPERATURE\<rparr>
       [a0, a1, a2, a3, b0, b1, b2, b3, c]
     = Inr (Some (TemperaturePacket
         (int (unat a0 + 256 * unat a1 + 65536 * unat a2 + 16777216 * unat a3))
         (PInt (int (unat b0 + 256 * unat b1 + 65536 * unat b2 + 16777216 * unat b3)))
         (int (unat c))))
   \<and> parse_packet_message \<lparr>type = TELEMETRY, sub_type = PRESSURE\<rparr>
       [a0, a1, a2, a3, b0, b1, b2, b3, c]
     = Inr (Some (PressurePacket
         (int (unat a0 + 256 * unat a1 + 65536 * unat a2 + 16777216 * unat a3))
         (PInt (int (unat b0 + 256 * unat b1 + 65536 * unat b2 + 16777216 * unat b3)))
         (int (unat c))))
   \<and> parse_packet_message \<lparr>type = TELEMETRY, sub_type = MASS\<rparr>
       [a0, a1, a2, a3, b0, b1, b2, b3, c]
     = Inr (Some (MassPacket
         (int (unat a0 + 256 * unat a1 + 65536 * unat a2 + 16777216 * unat a3))
         (PInt (int (unat b0 + 256 * unat b1 + 65536 * unat b2 + 16777216 * unat b3)))
         (int (unat c))))
   \<and> parse_packet_message \<lparr>type = TELEMETRY, sub_type = TEMPERATURE\<rparr>
       [0xE8, 0x03, 0, 0, 0xFA, 0, 0, 0, 2]
     = Inr (Some (TemperaturePacket 1000 (PInt 250) 2))"
  by (simp add: parse_packet_message_def unpack_IIB_def field_1 field_4)

text \<open>
  Claim C9. For a header that no case of \<open>parse_packet_message\<close> matches (a
  \<open>CONTROL\<close> header whose subtype is not one of \<open>ACT_REQ\<close>, \<open>ACT_ACK\<close>, \<open>ARM_REQ\<close>,
  \<open>ARM_ACK\<close>, or a \<open>TELEMETRY\<close> header whose subtype is one of these four) and any
  payload, the decoder returns \<open>None\<close> and raises nothing.
\<close>

theorem parse_packet_message_unmatched:
  assumes "(type h = CONTROL \<and> sub_type h \<notin> {ACT_REQ, ACT_ACK, ARM_REQ, ARM_ACK})
     \<or> (type h = TELEMETRY
          \<and> sub_type h \<notin> {TEMPERATURE, PRESSURE, MASS, ARMING_STATE, ACT_STATE, WARNING})"
  shows "parse_packet_message h message_bytes = Inr None"
  using assms
  by (cases "type h"; cases "sub_type h") (simp_all add: parse_packet_message_def)

theorem parse_packet_message_unmatched_witness:
  "parse_packet_message \<lparr>type = CONTROL, sub_type = TEMPERATURE\<rparr> [1, 2, 3] = Inr None
   \<and> parse_packet_message \<lparr>type = TELEMETRY, sub_type = ACT_REQ\<rparr> [4, 5] = Inr None"
  using parse_packet_message_unmatched [of "\<lparr>type = CONTROL, sub_type = TEMPERATURE\<rparr>" "[1, 2, 3]"]
    parse_packet_message_unmatched [of "\<lparr>type = TELEMETRY, sub_type = ACT_REQ\<rparr>" "[4, 5]"]
  by simp

section \<open>Binary digits and the valve string\<close>

text \<open>
  The binary digits of \<open>n\<close> are as many as \<open>n\<close> needs, and character \<open>i\<close> of the
  reversed, padded string is bit \<open>i\<close> of \<open>n\<close>. The padding gives at least 12 characters
  and takes none away.
\<close>

lemma bin_digits_length_pos: "0 < length (bin_digits n)"
  by (subst bin_digits.simps) simp

lemma bin_digits_bound: "n < 2 ^ length (bin_digits n)"
proof (induction n rule: bin_digits.induct)
  case (1 n)
  show ?case
  proof (cases "n < 2")
    case True
    then show ?thesis by (subst bin_digits.simps) simp
  next
    case False
    with 1 have "n div 2 < 2 ^ length (bin_digits (n div 2))" by simp
    then have "n < 2 * 2 ^ length (bin_digits (n div 2))" by arith
    with False show ?thesis by (subst bin_digits.simps) simp
  qed
qed

lemma bin_digits_lower: "0 < n \<Longrightarrow> 2 ^ (length (bin_digits n) - 1) \<le> n"
proof (induction n rule: bin_digits.induct)
  case (1 n)
  show ?case
  proof (cases "n < 2")
    case True
    with 1(2) show ?thesis by (subst bin_digits.simps) simp
  next
    case False
    then have pos: "0 < n div 2" by arith
    from 1(1) [OF False pos] have "2 ^ (length (bin_digits (n div 2)) - 1) \<le> n div 2" .
    then have "2 * 2 ^ (length (bin_digits (n div 2)) - 1) \<le> n" by arith
    moreover have "2 * 2 ^ (length (bin_digits (n div 2)) - 1)
        = (2::nat) ^ length (bin_digits (n div 2))"
      using bin_digits_length_pos [of "n div 2"]
      by (cases "length (bin_digits (n div 2))") simp_all
    ultimately show ?thesis using False by (subst bin_digits.simps) simp
  qed
qed

lemma rev_bin_digits_nth:
  "i < length (bin_digits n) \<Longrightarrow>
   rev (bin_digits n) ! i = (if odd (n div 2 ^ i) then CHR ''1'' else CHR ''0'')"
proof (induction n arbitrary: i rule: bin_digits.induct)
  case (1 n)
  show ?case
  proof (cases "n < 2")
    case True
    then have d: "bin_digits n = [if n = 0 then CHR ''0'' else CHR ''1'']"
      by (subst bin_digits.simps) simp
    with 1(2) have "i = 0" by simp
    moreover from True have "n = 0 \<or> n = 1" by arith
    ultimately show ?thesis using d by auto
  next
    case False
    then have d: "rev (bin_digits n)
        = (if n mod 2 = 0 then CHR ''0'' else CHR ''1'') # rev (bin_digits (n div 2))"
      by (subst bin_digits.simps) simp
    show ?thesis
    proof (cases i)
      case 0
      then show ?thesis by (simp add: d odd_iff_mod_2_eq_one)
    next
      case (Suc j)
      with 1(2) False have "j < length (bin_digits (n div 2))"
        by (subst (asm) bin_digits.simps) simp
      from 1(1) [OF False this] Suc show ?thesis
        by (simp add: d div_mult2_eq)
    qed
  qed
qed

lemma length_format_012b: "length (format_012b n) = max 12 (length (bin_digits n))"
  by (simp add: format_012b_def)

lemma rev_format_012b_nth:
  assumes "i < length (format_012b n)"
  shows "rev (format_012b n) ! i = (if odd (n div 2 ^ i) then CHR ''1'' else CHR ''0'')"
proof (cases "i < length (bin_digits n)")
  case True
  then show ?thesis by (simp add: format_012b_def nth_append rev_bin_digits_nth)
next
  case False
  then have "(2::nat) ^ length (bin_digits n) \<le> 2 ^ i" by simp
  with bin_digits_bound [of n] have "n < 2 ^ i" by (rule less_le_trans)
  then have z: "n div 2 ^ i = 0" by simp
  from assms False have "i - length (bin_digits n) < 12 - length (bin_digits n)"
    by (simp add: format_012b_def)
  with False show ?thesis by (simp add: format_012b_def nth_append z)
qed

lemma format_012b_bound: "n < 2 ^ length (format_012b n)"
proof -
  have "(2::nat) ^ length (bin_digits n) \<le> 2 ^ length (format_012b n)"
    by (simp add: length_format_012b)
  with bin_digits_bound [of n] show ?thesis by (rule less_le_trans)
qed

lemma format_012b_lower:
  assumes "12 < length (format_012b n)"
  shows "2 ^ (length (format_012b n) - 1) \<le> n"
proof -
  from assms have l: "length (format_012b n) = length (bin_digits n)"
    by (simp add: length_format_012b)
  have "0 < n"
  proof (rule ccontr)
    assume "\<not> 0 < n"
    then have "n = 0" by simp
    then have "length (bin_digits n) = 1" by (subst bin_digits.simps) simp
    with assms l show False by simp
  qed
  then show ?thesis unfolding l by (rule bin_digits_lower)
qed

lemma length_format_012b_12: "(length (format_012b n) = 12) = (n < 2 ^ 12)"
proof
  assume "length (format_012b n) = 12"
  with format_012b_bound [of n] show "n < 2 ^ 12" by simp
next
  assume n: "n < 2 ^ 12"
  show "length (format_012b n) = 12"
  proof (rule ccontr)
    assume "length (format_012b n) \<noteq> 12"
    then have g: "12 < length (format_012b n)" by (simp add: length_format_012b)
    then have "(2::nat) ^ 12 \<le> 2 ^ (length (format_012b n) - 1)"
      by (intro power_increasing) simp_all
    also have "\<dots> \<le> n" using g by (rule format_012b_lower)
    finally show False using n by simp
  qed
qed

lemma length_valve_events [simp]: "length (valve_events ts dov bits) = length bits"
  by (simp add: valve_events_def)

lemma valve_events_nth:
  "i < length bits \<Longrightarrow>
   valve_events ts dov bits ! i
     = (\<lparr>type = TELEMETRY, sub_type = ACT_STATE\<rparr>,
        ActuatorStatePacket ts (int i) (valve_state dov i (bits ! i)))"
  by (simp add: valve_events_def nth_enumerate_eq)

lemma length_format_012b_ge: "12 \<le> length (format_012b n)"
  by (simp add: length_format_012b)

lemma length_format_012b_le:
  assumes "n < 2 ^ 16"
  shows "length (format_012b n) \<le> 16"
proof (rule ccontr)
  assume "\<not> length (format_012b n) \<le> 16"
  then have g: "16 < length (format_012b n)" by simp
  then have "(2::nat) ^ 16 \<le> 2 ^ (length (format_012b n) - 1)"
    by (intro power_increasing) simp_all
  also have "\<dots> \<le> n" using g by (intro format_012b_lower) simp
  finally show False using assms by simp
qed

section \<open>Serial frame decoder\<close>

text \<open>
  For a frame of at least 26 bytes \<open>parse_serial_packet\<close> returns the packet and the
  list of events: the nine sensor events, then the events of the valve string.
\<close>

lemma le_uint_bound: "le_uint bs < 256 ^ length bs"
proof (induction bs)
  case Nil
  show ?case by simp
next
  case (Cons b bs)
  have "unat b < 256" using unsigned_less [of b, where ?'a = nat] by simp
  with Cons show ?case by simp
qed

lemma field_bound: "field bs off n < 256 ^ n"
proof -
  have "le_uint (take n (drop off bs)) < 256 ^ length (take n (drop off bs))"
    by (rule le_uint_bound)
  also have "\<dots> \<le> (256::nat) ^ n" by (intro power_increasing) simp_all
  finally show ?thesis by (simp add: field_def)
qed

lemma status_high_bound: "field bs off 4 div 2 ^ 16 < 2 ^ 16"
proof -
  have "field bs off 4 < 256 ^ 4" by (rule field_bound)
  then have "field bs off 4 < 2 ^ 16 * 2 ^ 16" by simp
  then show ?thesis by (simp add: less_mult_imp_div_less)
qed

lemma packet_events_asdict:
  "status pkt = PStr s \<Longrightarrow>
   packet_events ts dov (asdict pkt) []
     = Inr ([(\<lparr>type = TELEMETRY, sub_type = MASS\<rparr>, MassPacket ts (m1 pkt) 1),
             (\<lparr>type = TELEMETRY, sub_type = MASS\<rparr>, MassPacket ts (m2 pkt) 2),
             (\<lparr>type = TELEMETRY, sub_type = PRESSURE\<rparr>, PressurePacket ts (p1 pkt) 1),
             (\<lparr>type = TELEMETRY, sub_type = PRESSURE\<rparr>, PressurePacket ts (p2 pkt) 2),
             (\<lparr>type = TELEMETRY, sub_type = PRESSURE\<rparr>, PressurePacket ts (p3 pkt) 3),
             (\<lparr>type = TELEMETRY, sub_type = PRESSURE\<rparr>, PressurePacket ts (p4 pkt) 4),
             (\<lparr>type = TELEMETRY, sub_type = TEMPERATURE\<rparr>, TemperaturePacket ts (t1 pkt) 1),
             (\<lparr>type = TELEMETRY, sub_type = TEMPERATURE\<rparr>, TemperaturePacket ts (t2 pkt) 2),
             (\<lparr>type = TELEMETRY, sub_type = TEMPERATURE\<rparr>, TemperaturePacket ts (t3 pkt) 3)]
            @ valve_events ts dov (map (\<lambda>c. PStr [c]) s))"
  by (simp add: asdict_def field_events_def int_last_def)

lemma parse_serial_packet_ok:
  assumes "26 \<le> length data"
  obtains pkt where
    "parse_serial_packet dc data ts dov =
       Inr (pkt,
            [(\<lparr>type = TELEMETRY, sub_type = MASS\<rparr>, MassPacket ts (m1 pkt) 1),
             (\<lparr>type = TELEMETRY, sub_type = MASS\<rparr>, MassPacket ts (m2 pkt) 2),
             (\<lparr>type = TELEMETRY, sub_type = PRESSURE\<rparr>, PressurePacket ts (p1 pkt) 1),
             (\<lparr>type = TELEMETRY, sub_type = PRESSURE\<rparr>, PressurePacket ts (p2 pkt) 2),
             (\<lparr>type = TELEMETRY, sub_type = PRESSURE\<rparr>, PressurePacket ts (p3 pkt) 3),
             (\<lparr>type = TELEMETRY, sub_type = PRESSURE\<rparr>, PressurePacket ts (p4 pkt) 4),
             (\<lparr>type = TELEMETRY, sub_type = TEMPERATURE\<rparr>, TemperaturePacket ts (t1 pkt) 1),
             (\<lparr>type = TELEMETRY, sub_type = TEMPERATURE\<rparr>, TemperaturePacket ts (t2 pkt) 2),
             (\<lparr>type = TELEMETRY, sub_type = TEMPERATURE\<rparr>, TemperaturePacket ts (t3 pkt) 3)]
            @ valve_events ts dov
                (map (\<lambda>c. PStr [c]) (rev (format_012b (field data 22 4 div 2 ^ 16)))))"
    and "m1 pkt = PFloat (real (field data 6 2) / 1000)"
    and "m2 pkt = loadCell2Conversion dc (field data 4 2)"
    and "p1 pkt = pressureConversion dc (field data 8 2)"
    and "p2 pkt = pressureConversion dc (field data 10 2)"
    and "p3 pkt = pressureConversion dc (field data 12 2)"
    and "p4 pkt = pressureConversion dc (field data 14 2)"
    and "t1 pkt = thermistorConversion dc (field data 16 2)"
    and "t2 pkt = thermistor2Conversion dc (field data 18 2)"
    and "t3 pkt = thermocouple3Conversion dc (field data 20 2)"
    and "status pkt = PStr (rev (format_012b (field data 22 4 div 2 ^ 16)))"
proof -
  define pkt where "pkt =
    \<lparr>m1 = PFloat (real (field data 6 2) / 1000),
      m2 = loadCell2Conversion dc (field data 4 2),
      p1 = pressureConversion dc (field data 8 2),
      p2 = pressureConversion dc (field data 10 2),
      p3 = pressureConversion dc (field data 12 2),
      p4 = pressureConversion dc (field data 14 2),
      t1 = thermistorConversion dc (field data 16 2),
      t2 = thermistor2Conversion dc (field data 18 2),
      t3 = thermocouple3Conversion dc (field data 20 2),
      status = PStr (rev (format_012b (field data 22 4 div 2 ^ 16)))\<rparr>"
  have st: "status pkt = PStr (rev (format_012b (field data 22 4 div 2 ^ 16)))"
    by (simp add: pkt_def)
  have un: "unpack_from_HHHHHHHHHI data 4 =
      Inr (field data 4 2, field data 6 2, field data 8 2, field data 10 2, field data 12 2,
           field data 14 2, field data 16 2, field data 18 2, field data 20 2,
           field data 22 4)"
    using assms by (simp add: unpack_from_HHHHHHHHHI_def)
  have "parse_serial_packet dc data ts dov =
      (case packet_events ts dov (asdict pkt) [] of
         Inl e \<Rightarrow> Inl e | Inr packet_list \<Rightarrow> Inr (pkt, packet_list))"
    unfolding parse_serial_packet_def un pkt_def Let_def by (simp only: sum.case prod.case)
  then have ev: "parse_serial_packet dc data ts dov =
       Inr (pkt,
            [(\<lparr>type = TELEMETRY, sub_type = MASS\<rparr>, MassPacket ts (m1 pkt) 1),
             (\<lparr>type = TELEMETRY, sub_type = MASS\<rparr>, MassPacket ts (m2 pkt) 2),
             (\<lparr>type = TELEMETRY, sub_type = PRESSURE\<rparr>, PressurePacket ts (p1 pkt) 1),
             (\<lparr>type = TELEMETRY, sub_type = PRESSURE\<rparr>, PressurePacket ts (p2 pkt) 2),
             (\<lparr>type = TELEMETRY, sub_type = PRESSURE\<rparr>, PressurePacket ts (p3 pkt) 3),
             (\<lparr>type = TELEMETRY, sub_type = PRESSURE\<rparr>, PressurePacket ts (p4 pkt) 4),
             (\<lparr>type = TELEMETRY, sub_type = TEMPERATURE\<rparr>, TemperaturePacket ts (t1 pkt) 1),
             (\<lparr>type = TELEMETRY, sub_type = TEMPERATURE\<rparr>, TemperaturePacket ts (t2 pkt) 2),
             (\<lparr>type = TELEMETRY, sub_type = TEMPERATURE\<rparr>, TemperaturePacket ts (t3 pkt) 3)]
            @ valve_events ts dov
                (map (\<lambda>c. PStr [c]) (rev (format_012b (field data 22 4 div 2 ^ 16)))))"
    by (simp only: packet_events_asdict [OF st] sum.case)
  show thesis
  proof (rule that [of pkt])
    show "parse_serial_packet dc data ts dov =
       Inr (pkt,
            [(\<lparr>type = TELEMETRY, sub_type = MASS\<rparr>, MassPacket ts (m1 pkt) 1),
             (\<lparr>type = TELEMETRY, sub_type = MASS\<rparr>, MassPacket ts (m2 pkt) 2),
             (\<lparr>type = TELEMETRY, sub_type = PRESSURE\<rparr>, PressurePacket ts (p1 pkt) 1),
             (\<lparr>type = TELEMETRY, sub_type = PRESSURE\<rparr>, PressurePacket ts (p2 pkt) 2),
             (\<lparr>type = TELEMETRY, sub_type = PRESSURE\<rparr>, PressurePacket ts (p3 pkt) 3),
             (\<lparr>type = TELEMETRY, sub_type = PRESSURE\<rparr>, PressurePacket ts (p4 pkt) 4),
             (\<lparr>type = TELEMETRY, sub_type = TEMPERATURE\<rparr>, TemperaturePacket ts (t1 pkt) 1),
             (\<lparr>type = TELEMETRY, sub_type = TEMPERATURE\<rparr>, TemperaturePacket ts (t2 pkt) 2),
             (\<lparr>type = TELEMETRY, sub_type = TEMPERATURE\<rparr>, TemperaturePacket ts (t3 pkt) 3)]
            @ valve_events ts dov
                (map (\<lambda>c. PStr [c]) (rev (format_012b (field data 22 4 div 2 ^ 16)))))"
      by (fact ev)
  qed (simp_all add: pkt_def)
qed

lemma serial_events:
  assumes "26 \<le> length data"
  obtains pkt evs s where
    "parse_serial_packet dc data ts dov = Inr (pkt, evs)"
    and "take 9 evs =
      [(\<lparr>type = TELEMETRY, sub_type = MASS\<rparr>, MassPacket ts (m1 pkt) 1),
       (\<lparr>type = TELEMETRY, sub_type = MASS\<rparr>, MassPacket ts (m2 pkt) 2),
       (\<lparr>type = TELEMETRY, sub_type = PRESSURE\<rparr>, PressurePacket ts (p1 pkt) 1),
       (\<lparr>type = TELEMETRY, sub_type = PRESSURE\<rparr>, PressurePacket ts (p2 pkt) 2),
       (\<lparr>type = TELEMETRY, sub_type = PRESSURE\<rparr>, PressurePacket ts (p3 pkt) 3),
       (\<lparr>type = TELEMETRY, sub_type = PRESSURE\<rparr>, PressurePacket ts (p4 pkt) 4),
       (\<lparr>type = TELEMETRY, sub_type = TEMPERATURE\<rparr>, TemperaturePacket ts (t1 pkt) 1),
       (\<lparr>type = TELEMETRY, sub_type = TEMPERATURE\<rparr>, TemperaturePacket ts (t2 pkt) 2),
       (\<lparr>type = TELEMETRY, sub_type = TEMPERATURE\<rparr>, TemperaturePacket ts (t3 pkt) 3)]"
    and "status pkt = PStr s"
    and "s = rev (format_012b (field data 22 4 div 2 ^ 16))"
    and "length evs = 9 + length s"
    and "\<And>i. i < length s \<Longrightarrow>
          evs ! (9 + i) = (\<lparr>type = TELEMETRY, sub_type = ACT_STATE\<rparr>,
             ActuatorStatePacket ts (int i) (valve_state dov i (PStr [s ! i])))"
    and "m1 pkt = PFloat (real (field data 6 2) / 1000)"
    and "m2 pkt = loadCell2Conversion dc (field data 4 2)"
    and "p1 pkt = pressureConversion dc (field data 8 2)"
    and "p2 pkt = pressureConversion dc (field data 10 2)"
    and "p3 pkt = pressureConversion dc (field data 12 2)"
    and "p4 pkt = pressureConversion dc (field data 14 2)"
    and "t1 pkt = thermistorConversion dc (field data 16 2)"
    and "t2 pkt = thermistor2Conversion dc (field data 18 2)"
    and "t3 pkt = thermocouple3Conversion dc (field data 20 2)"
proof -
  define s where "s = rev (format_012b (field data 22 4 div 2 ^ 16))"
  from parse_serial_packet_ok [OF assms, of dc ts dov] obtain pkt where
    ev: "parse_serial_packet dc data ts dov =
       Inr (pkt,
            [(\<lparr>type = TELEMETRY, sub_type = MASS\<rparr>, MassPacket ts (m1 pkt) 1),
             (\<lparr>type = TELEMETRY, sub_type = MASS\<rparr>, MassPacket ts (m2 pkt) 2),
             (\<lparr>type = TELEMETRY, sub_type = PRESSURE\<rparr>, PressurePacket ts (p1 pkt) 1),
             (\<lparr>type = TELEMETRY, sub_type = PRESSURE\<rparr>, PressurePacket ts (p2 pkt) 2),
             (\<lparr>type = TELEMETRY, sub_type = PRESSURE\<rparr>, PressurePacket ts (p3 pkt) 3),
             (\<lparr>type = TELEMETRY, sub_type = PRESSURE\<rparr>, PressurePacket ts (p4 pkt) 4),
             (\<lparr>type = TELEMETRY, sub_type = TEMPERATURE\<rparr>, TemperaturePacket ts (t1 pkt) 1),
             (\<lparr>type = TELEMETRY, sub_type = TEMPERATURE\<rparr>, TemperaturePacket ts (t2 pkt) 2),
             (\<lparr>type = TELEMETRY, sub_type = TEMPERATURE\<rparr>, TemperaturePacket ts (t3 pkt) 3)]
            @ valve_events ts dov
                (map (\<lambda>c. PStr [c]) (rev (format_012b (field data 22 4 div 2 ^ 16)))))"
    and f: "m1 pkt = PFloat (real (field data 6 2) / 1000)"
      "m2 pkt = loadCell2Conversion dc (field data 4 2)"
      "p1 pkt = pressureConversion dc (field data 8 2)"
      "p2 pkt = pressureConversion dc (field data 10 2)"
      "p3 pkt = pressureConversion dc (field data 12 2)"
      "p4 pkt = pressureConversion dc (field data 14 2)"
      "t1 pkt = thermistorConversion dc (field data 16 2)"
      "t2 pkt = thermistor2Conversion dc (field data 18 2)"
      "t3 pkt = thermocouple3Conversion dc (field data 20 2)"
    and st: "status pkt = PStr (rev (format_012b (field data 22 4 div 2 ^ 16)))"
    by blast
  define sens where "sens =
      [(\<lparr>type = TELEMETRY, sub_type = MASS\<rparr>, MassPacket ts (m1 pkt) 1),
       (\<lparr>type = TELEMETRY, sub_type = MASS\<rparr>, MassPacket ts (m2 pkt) 2),
       (\<lparr>type = TELEMETRY, sub_type = PRESSURE\<rparr>, PressurePacket ts (p1 pkt) 1),
       (\<lparr>type = TELEMETRY, sub_type = PRESSURE\<rparr>, PressurePacket ts (p2 pkt) 2),
       (\<lparr>type = TELEMETRY, sub_type = PRESSURE\<rparr>, PressurePacket ts (p3 pkt) 3),
       (\<lparr>type = TELEMETRY, sub_type = PRESSURE\<rparr>, PressurePacket ts (p4 pkt) 4),
       (\<lparr>type = TELEMETRY, sub_type = TEMPERATURE\<rparr>, TemperaturePacket ts (t1 pkt) 1),
       (\<lparr>type = TELEMETRY, sub_type = TEMPERATURE\<rparr>, TemperaturePacket ts (t2 pkt) 2),
       (\<lparr>type = TELEMETRY, sub_type = TEMPERATURE\<rparr>, TemperaturePacket ts (t3 pkt) 3)]"
  define evs where "evs = sens @ valve_events ts dov (map (\<lambda>c. PStr [c]) s)"
  have ls: "length sens = 9" by (simp add: sens_def)
  have 1: "parse_serial_packet dc data ts dov = Inr (pkt, evs)"
    using ev by (simp only: evs_def sens_def s_def)
  have 2: "take 9 evs = sens" by (simp add: evs_def ls)
  have 3: "length evs = 9 + length s" by (simp add: evs_def ls)
  have 4: "evs ! (9 + i) = (\<lparr>type = TELEMETRY, sub_type = ACT_STATE\<rparr>,
             ActuatorStatePacket ts (int i) (valve_state dov i (PStr [s ! i])))"
    if "i < length s" for i
  proof -
    have "evs ! (length sens + i) = valve_events ts dov (map (\<lambda>c. PStr [c]) s) ! i"
      unfolding evs_def by (rule nth_append_length_plus)
    with that show ?thesis by (simp add: ls valve_events_nth)
  qed
  show thesis
    by (rule that [of pkt evs s]) (use 1 2 3 4 f st in \<open>simp_all only: sens_def s_def\<close>)
qed

text \<open>
  Claim C1, as the code has it. For every frame of at least 26 bytes, every timestamp
  and every default-open set, \<open>parse_serial_packet\<close> returns the packet and a list of
  events that starts with the nine sensor events in the order m1, m2, p1, p2, p3, p4,
  t1, t2, t3, followed by one \<open>ACT_STATE\<close> event per character of the valve string,
  with ids 0, 1, 2, ... in order. The valve string has as many characters as
  \<open>status >> 16\<close> has binary digits, and at least 12 (so between 12 and 16): exactly 12,
  that is 21 events in all, if and only if \<open>status >> 16\<close> is below 4096. Character
  \<open>i\<close> of the string is bit \<open>i\<close> of \<open>status >> 16\<close>, index 0 the least significant.
  Here \<open>field data 22 4\<close> is the 32-bit status field.
\<close>

theorem parse_serial_packet_events:
  assumes "26 \<le> length data"
  shows "\<exists>pkt evs s.
     parse_serial_packet dc data ts dov = Inr (pkt, evs)
     \<and> take 9 evs =
        [(\<lparr>type = TELEMETRY, sub_type = MASS\<rparr>, MassPacket ts (m1 pkt) 1),
         (\<lparr>type = TELEMETRY, sub_type = MASS\<rparr>, MassPacket ts (m2 pkt) 2),
         (\<lparr>type = TELEMETRY, sub_type = PRESSURE\<rparr>, PressurePacket ts (p1 pkt) 1),
         (\<lparr>type = TELEMETRY, sub_type = PRESSURE\<rparr>, PressurePacket ts (p2 pkt) 2),
         (\<lparr>type = TELEMETRY, sub_type = PRESSURE\<rparr>, PressurePacket ts (p3 pkt) 3),
         (\<lparr>type = TELEMETRY, sub_type = PRESSURE\<rparr>, PressurePacket ts (p4 pkt) 4),
         (\<lparr>type = TELEMETRY, sub_type = TEMPERATURE\<rparr>, TemperaturePacket ts (t1 pkt) 1),
         (\<lparr>type = TELEMETRY, sub_type = TEMPERATURE\<rparr>, TemperaturePacket ts (t2 pkt) 2),
         (\<lparr>type = TELEMETRY, sub_type = TEMPERATURE\<rparr>, TemperaturePacket ts (t3 pkt) 3)]
     \<and> status pkt = PStr s
     \<and> length evs = 9 + length s
     \<and> 12 \<le> length s \<and> length s \<le> 16
     \<and> (length s = 12) = (field data 22 4 div 2 ^ 16 < 2 ^ 12)
     \<and> field data 22 4 div 2 ^ 16 < 2 ^ length s
     \<and> (12 < length s \<longrightarrow> 2 ^ (length s - 1) \<le> field data 22 4 div 2 ^ 16)
     \<and> (\<forall>i<length s.
           s ! i = (if odd (field data 22 4 div 2 ^ 16 div 2 ^ i) then CHR ''1'' else CHR ''0'')
           \<and> (\<exists>st. evs ! (9 + i) = (\<lparr>type = TELEMETRY, sub_type = ACT_STATE\<rparr>,
                                      ActuatorStatePacket ts (int i) st)))"
proof -
  obtain pkt evs s where
    ev: "parse_serial_packet dc data ts dov = Inr (pkt, evs)"
    and sens: "take 9 evs =
        [(\<lparr>type = TELEMETRY, sub_type = MASS\<rparr>, MassPacket ts (m1 pkt) 1),
         (\<lparr>type = TELEMETRY, sub_type = MASS\<rparr>, MassPacket ts (m2 pkt) 2),
         (\<lparr>type = TELEMETRY, sub_type = PRESSURE\<rparr>, PressurePacket ts (p1 pkt) 1),
         (\<lparr>type = TELEMETRY, sub_type = PRESSURE\<rparr>, PressurePacket ts (p2 pkt) 2),
         (\<lparr>type = TELEMETRY, sub_type = PRESSURE\<rparr>, PressurePacket ts (p3 pkt) 3),
         (\<lparr>type = TELEMETRY, sub_type = PRESSURE\<rparr>, PressurePacket ts (p4 pkt) 4),
         (\<lparr>type = TELEMETRY, sub_type = TEMPERATURE\<rparr>, TemperaturePacket ts (t1 pkt) 1),
         (\<lparr>type = TELEMETRY, sub_type = TEMPERATURE\<rparr>, TemperaturePacket ts (t2 pkt) 2),
         (\<lparr>type = TELEMETRY, sub_type = TEMPERATURE\<rparr>, TemperaturePacket ts (t3 pkt) 3)]"
    and st: "status pkt = PStr s"
    and s: "s = rev (format_012b (field data 22 4 div 2 ^ 16))"
    and len: "length evs = 9 + length s"
    and nth: "\<And>i. i < length s \<Longrightarrow>
          evs ! (9 + i) = (\<lparr>type = TELEMETRY, sub_type = ACT_STATE\<rparr>,
             ActuatorStatePacket ts (int i) (valve_state dov i (PStr [s ! i])))"
    by (rule serial_events [OF assms, of dc ts dov]) (rule that; assumption)
  let ?v = "field data 22 4 div 2 ^ 16"
  have ls: "length s = length (format_012b ?v)" by (simp add: s)
  have a: "12 \<le> length s" unfolding ls by (rule length_format_012b_ge)
  have b: "length s \<le> 16" unfolding ls by (rule length_format_012b_le) (rule status_high_bound)
  have c: "(length s = 12) = (?v < 2 ^ 12)" unfolding ls by (rule length_format_012b_12)
  have d: "?v < 2 ^ length s" unfolding ls by (rule format_012b_bound)
  have e: "12 < length s \<longrightarrow> 2 ^ (length s - 1) \<le> ?v"
    unfolding ls by (rule impI) (rule format_012b_lower)
  have f: "\<forall>i<length s.
           s ! i = (if odd (?v div 2 ^ i) then CHR ''1'' else CHR ''0'')
           \<and> (\<exists>st. evs ! (9 + i) = (\<lparr>type = TELEMETRY, sub_type = ACT_STATE\<rparr>,
                                      ActuatorStatePacket ts (int i) st))"
  proof (intro allI impI conjI)
    fix i assume i: "i < length s"
    then have "i < length (format_012b ?v)" by (simp add: ls)
    then show "s ! i = (if odd (?v div 2 ^ i) then CHR ''1'' else CHR ''0'')"
      unfolding s by (rule rev_format_012b_nth)
    from nth [OF i] show "\<exists>st. evs ! (9 + i) = (\<lparr>type = TELEMETRY, sub_type = ACT_STATE\<rparr>,
                                      ActuatorStatePacket ts (int i) st)"
      by blast
  qed
  show ?thesis
    by (rule exI [of _ pkt], rule exI [of _ evs], rule exI [of _ s])
      (intro conjI ev sens st len a b c d e f)
qed

theorem parse_serial_packet_events_witness:
  "26 \<le> length [0x48, 0x45, 0x55, 0x49, 0xD0, 0x07, 0xE8, 0x03, 0x10, 0x02, 0x20, 0x02, 0x30,
                  0x02, 0x40, 0x02, 0x64, 0x00, 0x65, 0x00, 0x66, 0x00, 0xFF, 0xFF, 0x05, 0x00 :: byte]
   \<and> (\<exists>pkt evs.
        parse_serial_packet
          \<lparr>loadCell2Conversion = PFloat \<circ> real, pressureConversion = PFloat \<circ> real,
           thermistorConversion = PFloat \<circ> real, thermistor2Conversion = PFloat \<circ> real,
           thermocouple3Conversion = PFloat \<circ> real\<rparr>
          [0x48, 0x45, 0x55, 0x49, 0xD0, 0x07, 0xE8, 0x03, 0x10, 0x02, 0x20, 0x02, 0x30,
           0x02, 0x40, 0x02, 0x64, 0x00, 0x65, 0x00, 0x66, 0x00, 0xFF, 0xFF, 0x05, 0x00]
          7 {0} = Inr (pkt, evs)
        \<and> length evs = 21)"
  (is "26 \<le> length ?F \<and> (\<exists>pkt evs. parse_serial_packet ?dc ?F 7 {0} = Inr (pkt, evs) \<and> _)")
proof -
  have h: "26 \<le> length ?F" by simp
  have v: "field ?F 22 4 div 2 ^ 16 = 5" by (simp add: field_def)
  from parse_serial_packet_events [OF h, of ?dc 7 "{0}"]
  have "\<exists>pkt evs. parse_serial_packet ?dc ?F 7 {0} = Inr (pkt, evs) \<and> length evs = 21"
  proof (elim exE conjE)
    fix pkt evs s
    assume ev: "parse_serial_packet ?dc ?F 7 {0} = Inr (pkt, evs)"
      and len: "length evs = 9 + length s"
      and c: "(length s = 12) = (field ?F 22 4 div 2 ^ 16 < 2 ^ 12)"
    from c have "length s = 12" unfolding v by simp
    with len have l21: "length evs = 21" by simp
    show ?thesis by (rule exI [of _ pkt], rule exI [of _ evs], rule conjI [OF ev l21])
  qed
  with h show ?thesis by (rule conjI)
qed

text \<open>
  Claim C1 as stated does not hold: a frame whose status field is \<open>0x1000FFFF\<close>
  (\<open>status >> 16 = 4096\<close>, a number of 13 binary digits) gives 22 events, not 21.
\<close>

theorem parse_serial_packet_events_counterexample:
  "length (snd (projr (parse_serial_packet
          \<lparr>loadCell2Conversion = PFloat \<circ> real, pressureConversion = PFloat \<circ> real,
           thermistorConversion = PFloat \<circ> real, thermistor2Conversion = PFloat \<circ> real,
           thermocouple3Conversion = PFloat \<circ> real\<rparr>
          [0x48, 0x45, 0x55, 0x49, 0xD0, 0x07, 0xE8, 0x03, 0x10, 0x02, 0x20, 0x02, 0x30,
           0x02, 0x40, 0x02, 0x64, 0x00, 0x65, 0x00, 0x66, 0x00, 0xFF, 0xFF, 0x00, 0x10]
          7 {}))) = 22"
  (is "length (snd (projr (parse_serial_packet ?dc ?F 7 {}))) = 22")
proof -
  have h: "26 \<le> length ?F" by simp
  have v: "field ?F 22 4 div 2 ^ 16 = 4096" by (simp add: field_def)
  obtain pkt evs s where
    ev: "parse_serial_packet ?dc ?F 7 {} = Inr (pkt, evs)"
    and s: "s = rev (format_012b (field ?F 22 4 div 2 ^ 16))"
    and len: "length evs = 9 + length s"
    by (rule serial_events [OF h, of ?dc 7 "{}"]) (rule that; assumption)
  have "length (format_012b 4096) = 13"
    by (simp add: format_012b_def bin_digits.simps)
  then have "length s = 13" unfolding s v by simp
  with len have "length evs = 22" by simp
  then show ?thesis by (simp only: ev sum.sel snd_conv)
qed

text \<open>
  Claim C7. For every frame of at least 26 bytes, every valve index \<open>i\<close> of the valve
  string and its character (bit \<open>i\<close> of \<open>status >> 16\<close>): the event at position
  \<open>9 + i\<close> is the \<open>ACT_STATE\<close> event with id \<open>i\<close>; when \<open>i\<close> is in the default-open set,
  the character \<open>0\<close> gives \<open>ON\<close> and \<open>1\<close> gives \<open>OFF\<close>; when it is not, \<open>0\<close> gives
  \<open>OFF\<close> and \<open>1\<close> gives \<open>ON\<close>.
\<close>

theorem parse_serial_packet_valve_polarity:
  assumes "26 \<le> length data"
  shows "\<exists>pkt evs s.
     parse_serial_packet dc data ts dov = Inr (pkt, evs)
     \<and> status pkt = PStr s
     \<and> length evs = 9 + length s
     \<and> 12 \<le> length s
     \<and> (\<forall>i<length s.
           s ! i = (if odd (field data 22 4 div 2 ^ 16 div 2 ^ i) then CHR ''1'' else CHR ''0'')
           \<and> evs ! (9 + i) =
               (\<lparr>type = TELEMETRY, sub_type = ACT_STATE\<rparr>,
                ActuatorStatePacket ts (int i)
                  (if i \<in> dov then (if s ! i = CHR ''0'' then ON else OFF)
                   else (if s ! i = CHR ''0'' then OFF else ON))))"
proof -
  obtain pkt evs s where
    ev: "parse_serial_packet dc data ts dov = Inr (pkt, evs)"
    and st: "status pkt = PStr s"
    and s: "s = rev (format_012b (field data 22 4 div 2 ^ 16))"
    and len: "length evs = 9 + length s"
    and nth: "\<And>i. i < length s \<Longrightarrow>
          evs ! (9 + i) = (\<lparr>type = TELEMETRY, sub_type = ACT_STATE\<rparr>,
             ActuatorStatePacket ts (int i) (valve_state dov i (PStr [s ! i])))"
    by (rule serial_events [OF assms, of dc ts dov]) (rule that; assumption)
  let ?v = "field data 22 4 div 2 ^ 16"
  have ls: "length s = length (format_012b ?v)" by (simp add: s)
  have a: "12 \<le> length s" unfolding ls by (rule length_format_012b_ge)
  have f: "\<forall>i<length s.
           s ! i = (if odd (?v div 2 ^ i) then CHR ''1'' else CHR ''0'')
           \<and> evs ! (9 + i) =
               (\<lparr>type = TELEMETRY, sub_type = ACT_STATE\<rparr>,
                ActuatorStatePacket ts (int i)
                  (if i \<in> dov then (if s ! i = CHR ''0'' then ON else OFF)
                   else (if s ! i = CHR ''0'' then OFF else ON)))"
  proof (intro allI impI conjI)
    fix i assume i: "i < length s"
    then have "i < length (format_012b ?v)" by (simp add: ls)
    then show "s ! i = (if odd (?v div 2 ^ i) then CHR ''1'' else CHR ''0'')"
      unfolding s by (rule rev_format_012b_nth)
    from nth [OF i] show "evs ! (9 + i) =
               (\<lparr>type = TELEMETRY, sub_type = ACT_STATE\<rparr>,
                ActuatorStatePacket ts (int i)
                  (if i \<in> dov then (if s ! i = CHR ''0'' then ON else OFF)
                   else (if s ! i = CHR ''0'' then OFF else ON)))"
      by (simp add: valve_state_def)
  qed
  show ?thesis
    by (rule exI [of _ pkt], rule exI [of _ evs], rule exI [of _ s])
      (intro conjI ev st len a f)
qed

theorem parse_serial_packet_valve_polarity_witness:
  "26 \<le> length [0x48, 0x45, 0x55, 0x49, 0xD0, 0x07, 0xE8, 0x03, 0x10, 0x02, 0x20, 0x02, 0x30,
                  0x02, 0x40, 0x02, 0x64, 0x00, 0x65, 0x00, 0x66, 0x00, 0xFF, 0xFF, 0x0A, 0x00 :: byte]
   \<and> (\<exists>pkt evs.
        parse_serial_packet
          \<lparr>loadCell2Conversion = PFloat \<circ> real, pressureConversion = PFloat \<circ> real,
           thermistorConversion = PFloat \<circ> real, thermistor2Conversion = PFloat \<circ> real,
           thermocouple3Conversion = PFloat \<circ> real\<rparr>
          [0x48, 0x45, 0x55, 0x49, 0xD0, 0x07, 0xE8, 0x03, 0x10, 0x02, 0x20, 0x02, 0x30,
           0x02, 0x40, 0x02, 0x64, 0x00, 0x65, 0x00, 0x66, 0x00, 0xFF, 0xFF, 0x0A, 0x00]
          7 {0, 1} = Inr (pkt, evs)
        \<and> evs ! 9 = (\<lparr>type = TELEMETRY, sub_type = ACT_STATE\<rparr>, ActuatorStatePacket 7 0 ON)
        \<and> evs ! 10 = (\<lparr>type = TELEMETRY, sub_type = ACT_STATE\<rparr>, ActuatorStatePacket 7 1 OFF)
        \<and> evs ! 11 = (\<lparr>type = TELEMETRY, sub_type = ACT_STATE\<rparr>, ActuatorStatePacket 7 2 OFF)
        \<and> evs ! 12 = (\<lparr>type = TELEMETRY, sub_type = ACT_STATE\<rparr>, ActuatorStatePacket 7 3 ON))"
  (is "26 \<le> length ?F \<and> (\<exists>pkt evs. parse_serial_packet ?dc ?F 7 {0, 1} = Inr (pkt, evs) \<and> _)")
proof -
  have h: "26 \<le> length ?F" by simp
  have v: "field ?F 22 4 div 2 ^ 16 = 10" by (simp add: field_def)
  from parse_serial_packet_valve_polarity [OF h, of ?dc 7 "{0, 1}"]
  have "\<exists>pkt evs. parse_serial_packet ?dc ?F 7 {0, 1} = Inr (pkt, evs)
        \<and> evs ! 9 = (\<lparr>type = TELEMETRY, sub_type = ACT_STATE\<rparr>, ActuatorStatePacket 7 0 ON)
        \<and> evs ! 10 = (\<lparr>type = TELEMETRY, sub_type = ACT_STATE\<rparr>, ActuatorStatePacket 7 1 OFF)
        \<and> evs ! 11 = (\<lparr>type = TELEMETRY, sub_type = ACT_STATE\<rparr>, ActuatorStatePacket 7 2 OFF)
        \<and> evs ! 12 = (\<lparr>type = TELEMETRY, sub_type = ACT_STATE\<rparr>, ActuatorStatePacket 7 3 ON)"
  proof (elim exE conjE)
    fix pkt evs s
    assume ev: "parse_serial_packet ?dc ?F 7 {0, 1} = Inr (pkt, evs)"
      and a: "12 \<le> length s"
      and f: "\<forall>i<length s.
           s ! i = (if odd (field ?F 22 4 div 2 ^ 16 div 2 ^ i) then CHR ''1'' else CHR ''0'')
           \<and> evs ! (9 + i) =
               (\<lparr>type = TELEMETRY, sub_type = ACT_STATE\<rparr>,
                ActuatorStatePacket 7 (int i)
                  (if i \<in> {0, 1} then (if s ! i = CHR ''0'' then ON else OFF)
                   else (if s ! i = CHR ''0'' then OFF else ON)))"
    from a have i: "0 < length s" "1 < length s" "2 < length s" "3 < length s" by auto
    have e0: "evs ! 9 = (\<lparr>type = TELEMETRY, sub_type = ACT_STATE\<rparr>, ActuatorStatePacket 7 0 ON)"
      using f [rule_format, OF i(1)] unfolding v by simp
    have e1: "evs ! 10 = (\<lparr>type = TELEMETRY, sub_type = ACT_STATE\<rparr>, ActuatorStatePacket 7 1 OFF)"
      using f [rule_format, OF i(2)] unfolding v by simp
    have e2: "evs ! 11 = (\<lparr>type = TELEMETRY, sub_type = ACT_STATE\<rparr>, ActuatorStatePacket 7 2 OFF)"
      using f [rule_format, OF i(3)] unfolding v by simp
    have e3: "evs ! 12 = (\<lparr>type = TELEMETRY, sub_type = ACT_STATE\<rparr>, ActuatorStatePacket 7 3 ON)"
      using f [rule_format, OF i(4)] unfolding v by simp
    show ?thesis
      by (rule exI [of _ pkt], rule exI [of _ evs]) (intro conjI ev e0 e1 e2 e3)
  qed
  with h show ?thesis by (rule conjI)
qed

text \<open>
  Claim C8, as the code has it. For a frame whose status field has upper 16 bits equal
  to 1, decoded with valve 0 in the default-open set and none of the valves 1 to 11 in
  it, there are 21 events, the valve-0 event carries \<open>OFF\<close> (bit 1, default-open) and
  every other valve event, of the indices 1 to 11, carries \<open>OFF\<close> as well (bit 0, not
  default-open).
\<close>

theorem parse_serial_packet_only_bit0:
  assumes "26 \<le> length data"
    and "field data 22 4 div 2 ^ 16 = 1"
    and "0 \<in> dov"
    and "dov \<inter> {1..11} = {}"
  shows "\<exists>pkt evs.
     parse_serial_packet dc data ts dov = Inr (pkt, evs)
     \<and> length evs = 21
     \<and> (\<forall>i<12. evs ! (9 + i) = (\<lparr>type = TELEMETRY, sub_type = ACT_STATE\<rparr>,
                                  ActuatorStatePacket ts (int i) OFF))"
proof -
  obtain pkt evs s where
    ev: "parse_serial_packet dc data ts dov = Inr (pkt, evs)"
    and s: "s = rev (format_012b (field data 22 4 div 2 ^ 16))"
    and len: "length evs = 9 + length s"
    and nth: "\<And>i. i < length s \<Longrightarrow>
          evs ! (9 + i) = (\<lparr>type = TELEMETRY, sub_type = ACT_STATE\<rparr>,
             ActuatorStatePacket ts (int i) (valve_state dov i (PStr [s ! i])))"
    by (rule serial_events [OF assms(1), of dc ts dov]) (rule that; assumption)
  have s1: "s = rev (format_012b 1)" using s assms(2) by simp
  have "length (format_012b 1) = 12" by (simp add: length_format_012b_12)
  then have ls: "length s = 12" by (simp add: s1)
  have f: "\<forall>i<12. evs ! (9 + i) = (\<lparr>type = TELEMETRY, sub_type = ACT_STATE\<rparr>,
                                  ActuatorStatePacket ts (int i) OFF)"
  proof (intro allI impI)
    fix i :: nat assume i: "i < 12"
    then have "i < length (format_012b 1)" using ls by (simp add: s1)
    then have c: "s ! i = (if odd ((1::nat) div 2 ^ i) then CHR ''1'' else CHR ''0'')"
      unfolding s1 by (rule rev_format_012b_nth)
    have v: "valve_state dov i (PStr [s ! i]) = OFF"
    proof (cases "i = 0")
      case True
      with c assms(3) show ?thesis by (simp add: valve_state_def)
    next
      case False
      with i have "i \<in> {1..11}" by simp
      with assms(4) have "i \<notin> dov" by blast
      moreover have "(1::nat) div 2 ^ i = 0"
      proof -
        from False have "(1::nat) < 2 ^ i" by (intro one_less_power) simp_all
        then show ?thesis by (rule div_less)
      qed
      ultimately show ?thesis using c by (simp add: valve_state_def)
    qed
    from i ls have "i < length s" by simp
    from nth [OF this] v show "evs ! (9 + i) = (\<lparr>type = TELEMETRY, sub_type = ACT_STATE\<rparr>,
                                  ActuatorStatePacket ts (int i) OFF)"
      by simp
  qed
  have l21: "length evs = 21" using len ls by simp
  show ?thesis
    by (rule exI [of _ pkt], rule exI [of _ evs]) (intro conjI ev l21 f)
qed

theorem parse_serial_packet_only_bit0_witness:
  "26 \<le> length [0x48, 0x45, 0x55, 0x49, 0xD0, 0x07, 0xE8, 0x03, 0x10, 0x02, 0x20, 0x02, 0x30,
                  0x02, 0x40, 0x02, 0x64, 0x00, 0x65, 0x00, 0x66, 0x00, 0xFF, 0xFF, 0x01, 0x00 :: byte]
   \<and> field [0x48, 0x45, 0x55, 0x49, 0xD0, 0x07, 0xE8, 0x03, 0x10, 0x02, 0x20, 0x02, 0x30,
             0x02, 0x40, 0x02, 0x64, 0x00, 0x65, 0x00, 0x66, 0x00, 0xFF, 0xFF, 0x01, 0x00] 22 4
       div 2 ^ 16 = 1
   \<and> 0 \<in> {0 :: nat}
   \<and> {0 :: nat} \<inter> {1..11} = {}
   \<and> (\<exists>pkt evs.
        parse_serial_packet
          \<lparr>loadCell2Conversion = PFloat \<circ> real, pressureConversion = PFloat \<circ> real,
           thermistorConversion = PFloat \<circ> real, thermistor2Conversion = PFloat \<circ> real,
           thermocouple3Conversion = PFloat \<circ> real\<rparr>
          [0x48, 0x45, 0x55, 0x49, 0xD0, 0x07, 0xE8, 0x03, 0x10, 0x02, 0x20, 0x02, 0x30,
           0x02, 0x40, 0x02, 0x64, 0x00, 0x65, 0x00, 0x66, 0x00, 0xFF, 0xFF, 0x01, 0x00]
          7 {0} = Inr (pkt, evs)
        \<and> length evs = 21
        \<and> evs ! 9 = (\<lparr>type = TELEMETRY, sub_type = ACT_STATE\<rparr>, ActuatorStatePacket 7 0 OFF)
        \<and> evs ! 10 = (\<lparr>type = TELEMETRY, sub_type = ACT_STATE\<rparr>, ActuatorStatePacket 7 1 OFF)
        \<and> evs ! 20 = (\<lparr>type = TELEMETRY, sub_type = ACT_STATE\<rparr>, ActuatorStatePacket 7 11 OFF))"
  (is "26 \<le> length ?F \<and> _ \<and> _ \<and> _
       \<and> (\<exists>pkt evs. parse_serial_packet ?dc ?F 7 {0} = Inr (pkt, evs) \<and> _)")
proof -
  have h: "26 \<le> length ?F" by simp
  have v: "field ?F 22 4 div 2 ^ 16 = 1" by (simp add: field_def)
  have m: "0 \<in> {0 :: nat}" by simp
  have d: "{0 :: nat} \<inter> {1..11} = {}" by simp
  from parse_serial_packet_only_bit0 [OF h v m d, of ?dc 7]
  have "\<exists>pkt evs. parse_serial_packet ?dc ?F 7 {0} = Inr (pkt, evs)
        \<and> length evs = 21
        \<and> evs ! 9 = (\<lparr>type = TELEMETRY, sub_type = ACT_STATE\<rparr>, ActuatorStatePacket 7 0 OFF)
        \<and> evs ! 10 = (\<lparr>type = TELEMETRY, sub_type = ACT_STATE\<rparr>, ActuatorStatePacket 7 1 OFF)
        \<and> evs ! 20 = (\<lparr>type = TELEMETRY, sub_type = ACT_STATE\<rparr>, ActuatorStatePacket 7 11 OFF)"
  proof (elim exE conjE)
    fix pkt evs
    assume ev: "parse_serial_packet ?dc ?F 7 {0} = Inr (pkt, evs)"
      and len: "length evs = 21"
      and f: "\<forall>i<12. evs ! (9 + i) = (\<lparr>type = TELEMETRY, sub_type = ACT_STATE\<rparr>,
                                  ActuatorStatePacket 7 (int i) OFF)"
    have e0: "evs ! 9 = (\<lparr>type = TELEMETRY, sub_type = ACT_STATE\<rparr>, ActuatorStatePacket 7 0 OFF)"
      using f [rule_format, of 0] by simp
    have e1: "evs ! 10 = (\<lparr>type = TELEMETRY, sub_type = ACT_STATE\<rparr>, ActuatorStatePacket 7 1 OFF)"
      using f [rule_format, of 1] by simp
    have e11: "evs ! 20 = (\<lparr>type = TELEMETRY, sub_type = ACT_STATE\<rparr>, ActuatorStatePacket 7 11 OFF)"
      using f [rule_format, of 11] by simp
    show ?thesis
      by (rule exI [of _ pkt], rule exI [of _ evs]) (intro conjI ev len e0 e1 e11)
  qed
  with h v m d show ?thesis by (intro conjI)
qed

text \<open>
  Claim C8 as stated does not hold: in such a frame the event of valve 1 carries
  \<open>OFF\<close>, not \<open>ON\<close>.
\<close>

theorem parse_serial_packet_only_bit0_counterexample:
  "snd (projr (parse_serial_packet
          \<lparr>loadCell2Conversion = PFloat \<circ> real, pressureConversion = PFloat \<circ> real,
           thermistorConversion = PFloat \<circ> real, thermistor2Conversion = PFloat \<circ> real,
           thermocouple3Conversion = PFloat \<circ> real\<rparr>
          [0x48, 0x45, 0x55, 0x49, 0xD0, 0x07, 0xE8, 0x03, 0x10, 0x02, 0x20, 0x02, 0x30,
           0x02, 0x40, 0x02, 0x64, 0x00, 0x65, 0x00, 0x66, 0x00, 0xFF, 0xFF, 0x01, 0x00]
          7 {0})) ! 10
     = (\<lparr>type = TELEMETRY, sub_type = ACT_STATE\<rparr>, ActuatorStatePacket 7 1 OFF)
   \<and> snd (projr (parse_serial_packet
          \<lparr>loadCell2Conversion = PFloat \<circ> real, pressureConversion = PFloat \<circ> real,
           thermistorConversion = PFloat \<circ> real, thermistor2Conversion = PFloat \<circ> real,
           thermocouple3Conversion = PFloat \<circ> real\<rparr>
          [0x48, 0x45, 0x55, 0x49, 0xD0, 0x07, 0xE8, 0x03, 0x10, 0x02, 0x20, 0x02, 0x30,
           0x02, 0x40, 0x02, 0x64, 0x00, 0x65, 0x00, 0x66, 0x00, 0xFF, 0xFF, 0x01, 0x00]
          7 {0})) ! 10
     \<noteq> (\<lparr>type = TELEMETRY, sub_type = ACT_STATE\<rparr>, ActuatorStatePacket 7 1 ON)"
  (is "snd (projr (parse_serial_packet ?dc ?F 7 {0})) ! 10 = _ \<and> _")
proof -
  have h: "26 \<le> length ?F" by simp
  have v: "field ?F 22 4 div 2 ^ 16 = 1" by (simp add: field_def)
  obtain pkt evs s where
    ev: "parse_serial_packet ?dc ?F 7 {0} = Inr (pkt, evs)"
    and s: "s = rev (format_012b (field ?F 22 4 div 2 ^ 16))"
    and nth: "\<And>i. i < length s \<Longrightarrow>
          evs ! (9 + i) = (\<lparr>type = TELEMETRY, sub_type = ACT_STATE\<rparr>,
             ActuatorStatePacket 7 (int i) (valve_state {0} i (PStr [s ! i])))"
    by (rule serial_events [OF h, of ?dc 7 "{0}"]) (rule that; assumption)
  have s1: "s = rev (format_012b 1)" unfolding s v ..
  have "length (format_012b 1) = 12" by (simp add: length_format_012b_12)
  then have i: "1 < length (format_012b 1)" "1 < length s" by (simp_all add: s1)
  have "s ! 1 = (if odd ((1::nat) div 2 ^ 1) then CHR ''1'' else CHR ''0'')"
    unfolding s1 using i(1) by (rule rev_format_012b_nth)
  then have c: "s ! Suc 0 = CHR ''0''" by simp
  from nth [OF i(2)] have e: "evs ! 10
      = (\<lparr>type = TELEMETRY, sub_type = ACT_STATE\<rparr>, ActuatorStatePacket 7 1 OFF)"
    by (simp add: c valve_state_def)
  have r: "snd (projr (parse_serial_packet ?dc ?F 7 {0})) = evs"
    by (simp only: ev sum.sel snd_conv)
  show ?thesis unfolding r by (simp add: e)
qed

text \<open>
  Claim C10. For every frame of at least 26 bytes, the first 16-bit field (bytes 4 and
  5, little-endian) is the argument of \<open>loadCell2Conversion\<close> and gives \<open>m2\<close>; the second
  (bytes 6 and 7) divided by 1000 gives \<open>m1\<close>; the first event is that of \<open>m1\<close> with id
  1 and the second that of \<open>m2\<close> with id 2. Every other sensor field goes through a
  calibration function of \<open>data_conversions\<close>. The division is that of the real
  numbers: Python's float is the nearest double.
\<close>

theorem parse_serial_packet_mass_fields:
  assumes "26 \<le> length data"
  shows "\<exists>pkt evs.
     parse_serial_packet dc data ts dov = Inr (pkt, evs)
     \<and> m2 pkt = loadCell2Conversion dc (unat (data ! 4) + 256 * unat (data ! 5))
     \<and> m1 pkt = PFloat (real (unat (data ! 6) + 256 * unat (data ! 7)) / 1000)
     \<and> evs ! 0 = (\<lparr>type = TELEMETRY, sub_type = MASS\<rparr>, MassPacket ts (m1 pkt) 1)
     \<and> evs ! 1 = (\<lparr>type = TELEMETRY, sub_type = MASS\<rparr>, MassPacket ts (m2 pkt) 2)
     \<and> p1 pkt = pressureConversion dc (field data 8 2)
     \<and> p2 pkt = pressureConversion dc (field data 10 2)
     \<and> p3 pkt = pressureConversion dc (field data 12 2)
     \<and> p4 pkt = pressureConversion dc (field data 14 2)
     \<and> t1 pkt = thermistorConversion dc (field data 16 2)
     \<and> t2 pkt = thermistor2Conversion dc (field data 18 2)
     \<and> t3 pkt = thermocouple3Conversion dc (field data 20 2)"
proof -
  obtain pkt evs s where
    ev: "parse_serial_packet dc data ts dov = Inr (pkt, evs)"
    and sens: "take 9 evs =
        [(\<lparr>type = TELEMETRY, sub_type = MASS\<rparr>, MassPacket ts (m1 pkt) 1),
         (\<lparr>type = TELEMETRY, sub_type = MASS\<rparr>, MassPacket ts (m2 pkt) 2),
         (\<lparr>type = TELEMETRY, sub_type = PRESSURE\<rparr>, PressurePacket ts (p1 pkt) 1),
         (\<lparr>type = TELEMETRY, sub_type = PRESSURE\<rparr>, PressurePacket ts (p2 pkt) 2),
         (\<lparr>type = TELEMETRY, sub_type = PRESSURE\<rparr>, PressurePacket ts (p3 pkt) 3),
         (\<lparr>type = TELEMETRY, sub_type = PRESSURE\<rparr>, PressurePacket ts (p4 pkt) 4),
         (\<lparr>type = TELEMETRY, sub_type = TEMPERATURE\<rparr>, TemperaturePacket ts (t1 pkt) 1),
         (\<lparr>type = TELEMETRY, sub_type = TEMPERATURE\<rparr>, TemperaturePacket ts (t2 pkt) 2),
         (\<lparr>type = TELEMETRY, sub_type = TEMPERATURE\<rparr>, TemperaturePacket ts (t3 pkt) 3)]"
    and f: "m1 pkt = PFloat (real (field data 6 2) / 1000)"
      "m2 pkt = loadCell2Conversion dc (field data 4 2)"
    and g: "p1 pkt = pressureConversion dc (field data 8 2)"
      "p2 pkt = pressureConversion dc (field data 10 2)"
      "p3 pkt = pressureConversion dc (field data 12 2)"
      "p4 pkt = pressureConversion dc (field data 14 2)"
      "t1 pkt = thermistorConversion dc (field data 16 2)"
      "t2 pkt = thermistor2Conversion dc (field data 18 2)"
      "t3 pkt = thermocouple3Conversion dc (field data 20 2)"
    by (rule serial_events [OF assms, of dc ts dov]) (rule that; assumption)
  have a: "field data 4 2 = unat (data ! 4) + 256 * unat (data ! 5)"
    using assms by (simp add: field_2)
  have b: "field data 6 2 = unat (data ! 6) + 256 * unat (data ! 7)"
    using assms by (simp add: field_2)
  have "take 9 evs ! 0 = evs ! 0" "take 9 evs ! 1 = evs ! 1" by simp_all
  with sens have e0: "evs ! 0 = (\<lparr>type = TELEMETRY, sub_type = MASS\<rparr>, MassPacket ts (m1 pkt) 1)"
    and e1: "evs ! 1 = (\<lparr>type = TELEMETRY, sub_type = MASS\<rparr>, MassPacket ts (m2 pkt) 2)"
    by simp_all
  note h = f [unfolded a b]
  show ?thesis
    by (rule exI [of _ pkt], rule exI [of _ evs]) (intro conjI ev h e0 e1 g)
qed

theorem parse_serial_packet_mass_fields_witness:
  "26 \<le> length [0x48, 0x45, 0x55, 0x49, 0xD0, 0x07, 0xE8, 0x03, 0x10, 0x02, 0x20, 0x02, 0x30,
                  0x02, 0x40, 0x02, 0x64, 0x00, 0x65, 0x00, 0x66, 0x00, 0xFF, 0xFF, 0x05, 0x00 :: byte]
   \<and> (\<exists>pkt evs.
        parse_serial_packet
          \<lparr>loadCell2Conversion = PFloat \<circ> real, pressureConversion = PFloat \<circ> real,
           thermistorConversion = PFloat \<circ> real, thermistor2Conversion = PFloat \<circ> real,
           thermocouple3Conversion = PFloat \<circ> real\<rparr>
          [0x48, 0x45, 0x55, 0x49, 0xD0, 0x07, 0xE8, 0x03, 0x10, 0x02, 0x20, 0x02, 0x30,
           0x02, 0x40, 0x02, 0x64, 0x00, 0x65, 0x00, 0x66, 0x00, 0xFF, 0xFF, 0x05, 0x00]
          7 {} = Inr (pkt, evs)
        \<and> m2 pkt = PFloat 2000
        \<and> m1 pkt = PFloat 1
        \<and> evs ! 0 = (\<lparr>type = TELEMETRY, sub_type = MASS\<rparr>, MassPacket 7 (PFloat 1) 1)
        \<and> evs ! 1 = (\<lparr>type = TELEMETRY, sub_type = MASS\<rparr>, MassPacket 7 (PFloat 2000) 2))"
  (is "26 \<le> length ?F \<and> (\<exists>pkt evs. parse_serial_packet ?dc ?F 7 {} = Inr (pkt, evs) \<and> _)")
proof -
  have h: "26 \<le> length ?F" by simp
  from parse_serial_packet_mass_fields [OF h, of ?dc 7 "{}"]
  have "\<exists>pkt evs. parse_serial_packet ?dc ?F 7 {} = Inr (pkt, evs)
        \<and> m2 pkt = PFloat 2000
        \<and> m1 pkt = PFloat 1
        \<and> evs ! 0 = (\<lparr>type = TELEMETRY, sub_type = MASS\<rparr>, MassPacket 7 (PFloat 1) 1)
        \<and> evs ! 1 = (\<lparr>type = TELEMETRY, sub_type = MASS\<rparr>, MassPacket 7 (PFloat 2000) 2)"
  proof (elim exE conjE)
    fix pkt evs
    assume ev: "parse_serial_packet ?dc ?F 7 {} = Inr (pkt, evs)"
      and b: "m2 pkt = loadCell2Conversion ?dc (unat (?F ! 4) + 256 * unat (?F ! 5))"
      and a: "m1 pkt = PFloat (real (unat (?F ! 6) + 256 * unat (?F ! 7)) / 1000)"
      and e0: "evs ! 0 = (\<lparr>type = TELEMETRY, sub_type = MASS\<rparr>, MassPacket 7 (m1 pkt) 1)"
      and e1: "evs ! 1 = (\<lparr>type = TELEMETRY, sub_type = MASS\<rparr>, MassPacket 7 (m2 pkt) 2)"
    from b have b': "m2 pkt = PFloat 2000" by simp
    from a have a': "m1 pkt = PFloat 1" by simp
    note e0' = e0 [unfolded a'] and e1' = e1 [unfolded b']
    show ?thesis
      by (rule exI [of _ pkt], rule exI [of _ evs]) (intro conjI ev b' a' e0' e1')
  qed
  with h show ?thesis by (rule conjI)
qed

end
